theory Spec2Isabelle
  imports Main "HOL-Library.Word" "HOL-Library.Multiset"
begin

unbundle bit_operations_syntax

section \<open>The Linux router of wgengine (router\_linux.go)\<close>

text \<open>
  A shallow embedding of \<^verbatim>\<open>wgengine/router_linux.go\<close>: the \<^verbatim>\<open>linuxRouter\<close>
  with its three operations \<^verbatim>\<open>Up\<close>, \<^verbatim>\<open>SetRoutes\<close> and \<^verbatim>\<open>Close\<close>.
  The router shells out to \<^verbatim>\<open>ip\<close>, \<^verbatim>\<open>iptables\<close> and \<^verbatim>\<open>service\<close>; the model
  records every command that is started, every log line, and lets the outcome of each
  command be decided by the operating system, which is a parameter.
\<close>

subsection \<open>Data: addresses, settings, router\<close>

type_synonym byte = "8 word"

text \<open>
  The packages \<^verbatim>\<open>wgcfg\<close> (of wireguard-go) and \<^verbatim>\<open>net\<close> (of the Go standard library)
  are libraries the router imports; what the router uses of them is written out here
  after their Go sources.
  \<^verbatim>\<open>wgcfg.IP\<close> is \<^verbatim>\<open>struct { Addr [16]byte }\<close> and \<^verbatim>\<open>wgcfg.CIDR\<close> is
  \<^verbatim>\<open>struct { IP IP; Mask uint8 }\<close>. Both are compared by value
  (\<^verbatim>\<open>rs.LocalAddr != r.local\<close>) and a CIDR is a map key.
\<close>

record IP =
  Addr :: "byte list"

record CIDR =
  IP :: IP
  Mask :: byte

text \<open>The zero value \<^verbatim>\<open>wgcfg.CIDR{}\<close>: sixteen zero bytes and mask 0.\<close>

definition CIDR_zero :: CIDR where
  "CIDR_zero = \<lparr>IP = \<lparr>Addr = replicate 16 0\<rparr>, Mask = 0\<rparr>"

text \<open>
  Modelled from the spec: \<^verbatim>\<open>RouteSettings\<close> is declared in another file of the package.
  The desired state is the target address, the peers with their allowed IPs, the DNS
  servers and the DNS search domains; the fields are named as \<^verbatim>\<open>SetRoutes\<close> reads them
  (\<^verbatim>\<open>rs.LocalAddr\<close>, \<^verbatim>\<open>rs.Cfg.Peers\<close>, \<^verbatim>\<open>peer.AllowedIPs\<close>, \<^verbatim>\<open>rs.DNS\<close>,
  \<^verbatim>\<open>rs.DNSDomains\<close>).
\<close>

record Peer =
  AllowedIPs :: "CIDR list"

record Config =
  Peers :: "Peer list"

record RouteSettings =
  LocalAddr :: CIDR
  DNS :: "byte list list"
  DNSDomains :: "string list"
  Cfg :: Config

text \<open>
  A logger is a function value in the source; the model names the sink a line goes to.
\<close>

type_synonym logger = nat

text \<open>
  \<^verbatim>\<open>map[wgcfg.CIDR]struct{}\<close> is modelled by the list of its keys, which holds no key
  twice. The position of a key in the list has no meaning: \<^verbatim>\<open>range\<close> visits the keys in
  an order the runtime chooses (see \<open>range_keys\<close>). The nil map is the empty list.
\<close>

type_synonym CIDR_map = "CIDR list"

record linuxRouter =
  logf :: logger
  tunname :: string
  local :: CIDR
  routes :: CIDR_map

text \<open>\<^verbatim>\<open>newRoutes[route] = struct{}{}\<close>\<close>

definition map_store :: "CIDR_map \<Rightarrow> CIDR \<Rightarrow> CIDR_map" where
  "map_store m k = (if k \<in> set m then m else m @ [k])"

text \<open>\<^verbatim>\<open>_, ok := m[route]\<close>\<close>

definition map_has :: "CIDR_map \<Rightarrow> CIDR \<Rightarrow> bool" where
  "map_has m k = (k \<in> set m)"

text \<open>
  \<^verbatim>\<open>for route := range m\<close>: Go leaves the iteration order of a map unspecified. The
  runtime's choices are a list of numbers; each picks the next key among those not yet
  visited. Every order of the keys is the result of some choices (\<open>range_keys_any_order\<close>
  below).
\<close>

fun range_keys :: "nat list \<Rightarrow> 'a list \<Rightarrow> 'a list" where
  "range_keys ns [] = []"
| "range_keys [] (x # xs) = x # xs"
| "range_keys (n # ns) (x # xs) =
     (let i = n mod length (x # xs)
      in (x # xs) ! i # range_keys ns (take i (x # xs) @ drop (Suc i) (x # xs)))"

subsection \<open>Errors, log lines, the world outside\<close>

text \<open>
  An \<^verbatim>\<open>error\<close> value is either what \<^verbatim>\<open>os/exec\<close> returned for a command, what
  \<^verbatim>\<open>fmt.Errorf\<close> builds around another error, or an error of the resolver-file helpers.
\<close>

datatype error =
    ExecError string
  | Errorf string error
  | FileError string

datatype logarg = Strs "string list" | Err error | Bytes string

datatype log_entry =
    Logf logger string "logarg list"
  | Fatalf string "logarg list"

text \<open>
  The world: the argument vectors of the commands started so far, the log, and the
  resolver configuration (whatever the resolver-file helpers keep on disk).
\<close>

record 'fs world =
  issued :: "string list list"
  logged :: "log_entry list"
  resolv :: 'fs

text \<open>
  What the router does not own. \<open>net_IP_String\<close> is \<^verbatim>\<open>net.IP.String\<close> of the Go
  standard library (the text of an address; the empty list is the nil \<^verbatim>\<open>net.IP\<close>).
  \<open>exec_result\<close> is the operating system: given the commands started before and the
  command started now, the combined output and the failure, if any.
  \<open>replaceResolvConf\<close> and \<open>restoreResolvConf\<close> are functions of this package that
  are declared in another file: they are parameters, called with the arguments the
  source gives them (the last one the logger), and may change the world in any way.
\<close>

record 'fs sys =
  net_IP_String :: "byte list \<Rightarrow> string"
  exec_result :: "string list list \<Rightarrow> string list \<Rightarrow> string \<times> string option"
  replaceResolvConf ::
    "byte list list \<Rightarrow> string list \<Rightarrow> logger \<Rightarrow> 'fs world \<Rightarrow> error option \<times> 'fs world"
  restoreResolvConf :: "logger \<Rightarrow> 'fs world \<Rightarrow> error option \<times> 'fs world"

text \<open>
  \<^verbatim>\<open>log.Fatalf\<close> ends the process: a call either returns a value or the process exits.
\<close>

datatype 'a outcome = Exit | Return 'a

definition log_line :: "log_entry \<Rightarrow> 'fs world \<Rightarrow> 'fs world" where
  "log_line e w = w\<lparr>logged := logged w @ [e]\<rparr>"

subsection \<open>Text of addresses\<close>

text \<open>\<^verbatim>\<open>%d\<close> of an unsigned number.\<close>

fun Itoa :: "nat \<Rightarrow> string" where
  "Itoa n =
     (if n < 10 then [''0123456789'' ! n]
      else Itoa (n div 10) @ [''0123456789'' ! (n mod 10)])"

declare Itoa.simps [simp del]

text \<open>\<^verbatim>\<open>func (ip IP) String() string { return net.IP(ip.Addr[:]).String() }\<close>\<close>

definition IP_String :: "'fs sys \<Rightarrow> IP \<Rightarrow> string" where
  "IP_String sys ip = net_IP_String sys (Addr ip)"

text \<open>\<^verbatim>\<open>func (r CIDR) String() string\<close>: the address, a slash, the mask in decimal.\<close>

definition CIDR_String :: "'fs sys \<Rightarrow> CIDR \<Rightarrow> string" where
  "CIDR_String sys c = IP_String sys (IP c) @ ''/'' @ Itoa (unat (Mask c))"

text \<open>
  \<^verbatim>\<open>func (ip *IP) Is4() bool\<close>: the address is an IPv4 address in its IPv6 form, ten
  zero bytes and two bytes 0xff before the four address bytes.
\<close>

definition v4InV6Prefix :: "byte list" where
  "v4InV6Prefix = [0, 0, 0, 0, 0, 0, 0, 0, 0, 0, 0xff, 0xff]"

definition Is4 :: "IP \<Rightarrow> bool" where
  "Is4 ip = (take 12 (Addr ip) = v4InV6Prefix)"

text \<open>
  \<^verbatim>\<open>net.CIDRMask(ones, bits)\<close>: nil unless \<open>bits\<close> is 32 or 128 and \<open>ones\<close> is at
  most \<open>bits\<close>; else \<open>bits / 8\<close> bytes, the first \<open>ones\<close> bits set. The loop runs over
  the bytes with \<open>n\<close> the ones still to write.
\<close>

fun CIDRMask_loop :: "nat \<Rightarrow> nat \<Rightarrow> byte list" where
  "CIDRMask_loop 0 n = []"
| "CIDRMask_loop (Suc l) n =
     (if n \<ge> 8 then 0xff # CIDRMask_loop l (n - 8)
      else NOT (drop_bit n (0xff :: byte)) # CIDRMask_loop l 0)"

definition CIDRMask :: "nat \<Rightarrow> nat \<Rightarrow> byte list" where
  "CIDRMask ones bits =
     (if bits \<noteq> 32 \<and> bits \<noteq> 128 then []
      else if ones > bits then []
      else CIDRMask_loop (bits div 8) ones)"

text \<open>\<^verbatim>\<open>func (r *CIDR) IPNet() *net.IPNet\<close>: the sixteen bytes and the mask bytes.\<close>

definition IPNet :: "CIDR \<Rightarrow> byte list \<times> byte list" where
  "IPNet r =
     (if Is4 (IP r) then (Addr (IP r), CIDRMask (unat (Mask r)) 32)
      else (Addr (IP r), CIDRMask (unat (Mask r)) 128))"

text \<open>
  \<^verbatim>\<open>func (ip IP) Mask(mask IPMask) IP\<close> of package net: a sixteen-byte mask whose first
  twelve bytes are 0xff is cut to four bytes for a four-byte address, a sixteen-byte
  IPv4 address is cut to four bytes for a four-byte mask, and the result is nil when
  the lengths differ.
\<close>

definition allFF :: "byte list \<Rightarrow> bool" where
  "allFF b = list_all (\<lambda>c. c = 0xff) b"

definition net_IP_Mask :: "byte list \<Rightarrow> byte list \<Rightarrow> byte list" where
  "net_IP_Mask ip m =
     (let m1 = (if length m = 16 \<and> length ip = 4 \<and> allFF (take 12 m)
                then drop 12 m else m);
          ip1 = (if length m1 = 4 \<and> length ip = 16 \<and> take 12 ip = v4InV6Prefix
                 then drop 12 ip else ip)
      in if length ip1 \<noteq> length m1 then [] else map2 (AND) ip1 m1)"

text \<open>
  The three lines both route loops share:
  \<^verbatim>\<open>net := route.IPNet(); nip := net.IP.Mask(net.Mask); nstr := fmt.Sprintf("%v/%d", nip, route.Mask)\<close>
\<close>

definition nip :: "CIDR \<Rightarrow> byte list" where
  "nip route = (case IPNet route of (ip, m) \<Rightarrow> net_IP_Mask ip m)"

definition nstr :: "'fs sys \<Rightarrow> CIDR \<Rightarrow> string" where
  "nstr sys route = net_IP_String sys (nip route) @ ''/'' @ Itoa (unat (Mask route))"

subsection \<open>Running a command\<close>

text \<open>
  \<^verbatim>\<open>cmd(args...).CombinedOutput()\<close>: \<^verbatim>\<open>cmd\<close> ends the process through \<^verbatim>\<open>log.Fatalf\<close>
  when there is no argument; otherwise the command is started and the operating system
  decides its output and its error.
\<close>

definition run :: "'fs sys \<Rightarrow> string list \<Rightarrow> 'fs world \<Rightarrow> (string \<times> error option) outcome \<times> 'fs world" where
  "run sys args w =
     (if length args = 0
      then (Exit, log_line (Fatalf ''exec.Cmd(%#v) invalid; need argv[0]\<newline>'' [Strs args]) w)
      else (case exec_result sys (issued w) args of
              (out, err) \<Rightarrow>
                (Return (out, map_option ExecError err), w\<lparr>issued := issued w @ [args]\<rparr>)))"

text \<open>
  The block that \<^verbatim>\<open>SetRoutes\<close> repeats four times:
  \<^verbatim>\<open>out, err := cmd(argv...).CombinedOutput()
  if err != nil {
      r.logf(format, argv, err, out)
      if errq == nil { errq = err }
  }\<close>
\<close>

definition attempt ::
  "'fs sys \<Rightarrow> logger \<Rightarrow> string \<Rightarrow> string list \<Rightarrow> error option \<Rightarrow> 'fs world
   \<Rightarrow> error option outcome \<times> 'fs world" where
  "attempt sys lg format argv errq w =
     (case run sys argv w of
        (Exit, w1) \<Rightarrow> (Exit, w1)
      | (Return (out, None), w1) \<Rightarrow> (Return errq, w1)
      | (Return (out, Some err), w1) \<Rightarrow>
          (Return (if errq = None then Some err else errq),
           log_line (Logf lg format [Strs argv, Err err, Bytes out]) w1))"

subsection \<open>The constructor\<close>


subsection \<open>Up\<close>

definition link_up_argv :: "linuxRouter \<Rightarrow> string list" where
  "link_up_argv r = [''ip'', ''link'', ''set'', tunname r, ''up'']"

definition forward_argv :: "linuxRouter \<Rightarrow> string list" where
  "forward_argv r = [''iptables'', ''-A'', ''FORWARD'', ''-i'', tunname r, ''-j'', ''ACCEPT'']"

definition nat_argv :: "string list" where
  "nat_argv = [''iptables'', ''-t'', ''nat'', ''-A'', ''POSTROUTING'', ''-o'', ''eth0'',
               ''-j'', ''MASQUERADE'']"

definition Up :: "'fs sys \<Rightarrow> linuxRouter \<Rightarrow> 'fs world \<Rightarrow> error option outcome \<times> 'fs world" where
  "Up sys r w =
     (case run sys (link_up_argv r) w of
        (Exit, w1) \<Rightarrow> (Exit, w1)
      | (Return (out1, Some err1), w1) \<Rightarrow>
          (Exit, log_line (Fatalf ''running ip link failed: %v\<newline>%s'' [Err err1, Bytes out1]) w1)
      | (Return (out1, None), w1) \<Rightarrow>
          (case run sys (forward_argv r) w1 of
             (Exit, w2) \<Rightarrow> (Exit, w2)
           | (Return (out2, err2), w2) \<Rightarrow>
               (let w3 = (case err2 of
                            Some e2 \<Rightarrow>
                              log_line (Logf (logf r) ''iptables forward failed: %v\<newline>%s''
                                          [Err e2, Bytes out2]) w2
                          | None \<Rightarrow> w2)
                in case run sys nat_argv w3 of
                     (Exit, w4) \<Rightarrow> (Exit, w4)
                   | (Return (out3, err3), w4) \<Rightarrow>
                       (Return None,
                        (case err3 of
                           Some e3 \<Rightarrow>
                             log_line (Logf (logf r) ''iptables nat failed: %v\<newline>%s''
                                         [Err e3, Bytes out3]) w4
                         | None \<Rightarrow> w4)))))"

subsection \<open>SetRoutes\<close>

definition addr_del_argv :: "'fs sys \<Rightarrow> linuxRouter \<Rightarrow> string list" where
  "addr_del_argv sys r = [''ip'', ''addr'', ''del'', CIDR_String sys (local r), ''dev'', tunname r]"

definition addr_add_argv :: "'fs sys \<Rightarrow> linuxRouter \<Rightarrow> RouteSettings \<Rightarrow> string list" where
  "addr_add_argv sys r rs =
     [''ip'', ''addr'', ''add'', CIDR_String sys (LocalAddr rs), ''dev'', tunname r]"

definition route_del_argv :: "'fs sys \<Rightarrow> linuxRouter \<Rightarrow> CIDR \<Rightarrow> string list" where
  "route_del_argv sys r route =
     [''ip'', ''route'', ''del'', nstr sys route,
      ''via'', IP_String sys (IP (local r)), ''dev'', tunname r]"

definition route_add_argv :: "'fs sys \<Rightarrow> linuxRouter \<Rightarrow> RouteSettings \<Rightarrow> CIDR \<Rightarrow> string list" where
  "route_add_argv sys r rs route =
     [''ip'', ''route'', ''add'', nstr sys route,
      ''via'', IP_String sys (IP (LocalAddr rs)), ''dev'', tunname r]"

text \<open>Lines 81 to 104: the address is replaced when the target differs from \<^verbatim>\<open>r.local\<close>.\<close>

definition set_addr ::
  "'fs sys \<Rightarrow> linuxRouter \<Rightarrow> RouteSettings \<Rightarrow> error option \<Rightarrow> 'fs world
   \<Rightarrow> error option outcome \<times> 'fs world" where
  "set_addr sys r rs errq w =
     (if LocalAddr rs \<noteq> local r then
        (case (if local r \<noteq> CIDR_zero
               then attempt sys (logf r) ''addr del failed: %v: %v\<newline>%s''
                      (addr_del_argv sys r) errq w
               else (Return errq, w)) of
           (Exit, w1) \<Rightarrow> (Exit, w1)
         | (Return errq1, w1) \<Rightarrow>
             attempt sys (logf r) ''addr add failed: %v: %v\<newline>%s''
               (addr_add_argv sys r rs) errq1 w1)
      else (Return errq, w))"

text \<open>Lines 106 to 111: the new route set, filled peer by peer.\<close>

definition newRoutes_of :: "RouteSettings \<Rightarrow> CIDR_map" where
  "newRoutes_of rs =
     fold (\<lambda>peer m. fold (\<lambda>route m1. map_store m1 route) (AllowedIPs peer) m)
       (Peers (Cfg rs)) []"

text \<open>
  Lines 112 to 129: the loop over \<^verbatim>\<open>r.routes\<close>, given the keys in the order \<^verbatim>\<open>range\<close>
  yields them.
\<close>

fun del_routes ::
  "'fs sys \<Rightarrow> linuxRouter \<Rightarrow> CIDR_map \<Rightarrow> CIDR list \<Rightarrow> error option \<Rightarrow> 'fs world
   \<Rightarrow> error option outcome \<times> 'fs world" where
  "del_routes sys r newRoutes [] errq w = (Return errq, w)"
| "del_routes sys r newRoutes (route # rest) errq w =
     (if \<not> map_has newRoutes route then
        (case attempt sys (logf r) ''addr del failed: %v: %v\<newline>%s''
                (route_del_argv sys r route) errq w of
           (Exit, w1) \<Rightarrow> (Exit, w1)
         | (Return errq1, w1) \<Rightarrow> del_routes sys r newRoutes rest errq1 w1)
      else del_routes sys r newRoutes rest errq w)"

text \<open>Lines 130 to 147: the loop over \<^verbatim>\<open>newRoutes\<close>.\<close>

fun add_routes ::
  "'fs sys \<Rightarrow> linuxRouter \<Rightarrow> RouteSettings \<Rightarrow> CIDR list \<Rightarrow> error option \<Rightarrow> 'fs world
   \<Rightarrow> error option outcome \<times> 'fs world" where
  "add_routes sys r rs [] errq w = (Return errq, w)"
| "add_routes sys r rs (route # rest) errq w =
     (if \<not> map_has (routes r) route then
        (case attempt sys (logf r) ''addr add failed: %v: %v\<newline>%s''
                (route_add_argv sys r rs route) errq w of
           (Exit, w1) \<Rightarrow> (Exit, w1)
         | (Return errq1, w1) \<Rightarrow> add_routes sys r rs rest errq1 w1)
      else add_routes sys r rs rest errq w)"

text \<open>
  \<^verbatim>\<open>restartSystemd\<close> starts the command with \<^verbatim>\<open>exec.Command\<close> itself, drops its error
  and logs its output when there is some.
\<close>

definition restart_argv :: "string list" where
  "restart_argv = [''service'', ''systemd-resolved'', ''restart'']"

definition restartSystemd :: "'fs sys \<Rightarrow> logger \<Rightarrow> 'fs world \<Rightarrow> 'fs world" where
  "restartSystemd sys lg w =
     (case exec_result sys (issued w) restart_argv of
        (out, err) \<Rightarrow>
          (let w1 = w\<lparr>issued := issued w @ [restart_argv]\<rparr>
           in if length out > 0
              then log_line (Logf lg ''service systemd-resolved restart: %s'' [Bytes out]) w1
              else w1))"

text \<open>
  \<^verbatim>\<open>SetRoutes\<close>. \<open>ord1\<close> and \<open>ord2\<close> are the runtime's choices for the two
  \<^verbatim>\<open>range\<close> loops. The result is the returned error and the router after the call.
\<close>

definition SetRoutes ::
  "'fs sys \<Rightarrow> nat list \<Rightarrow> nat list \<Rightarrow> linuxRouter \<Rightarrow> RouteSettings \<Rightarrow> 'fs world
   \<Rightarrow> (error option \<times> linuxRouter) outcome \<times> 'fs world" where
  "SetRoutes sys ord1 ord2 r rs w =
     (case set_addr sys r rs None w of
        (Exit, w1) \<Rightarrow> (Exit, w1)
      | (Return errq1, w1) \<Rightarrow>
          (let newRoutes = newRoutes_of rs
           in case del_routes sys r newRoutes (range_keys ord1 (routes r)) errq1 w1 of
                (Exit, w2) \<Rightarrow> (Exit, w2)
              | (Return errq2, w2) \<Rightarrow>
                  (case add_routes sys r rs (range_keys ord2 newRoutes) errq2 w2 of
                     (Exit, w3) \<Rightarrow> (Exit, w3)
                   | (Return errq3, w3) \<Rightarrow>
                       (let r1 = r\<lparr>local := LocalAddr rs, routes := newRoutes\<rparr>
                        in if False then
                             (case replaceResolvConf sys (DNS rs) (DNSDomains rs) (logf r) w3 of
                                (err, w4) \<Rightarrow>
                                  (let errq4 = (case err of
                                                  Some e \<Rightarrow>
                                                    Some (Errorf ''replacing resolv.conf failed: %v'' e)
                                                | None \<Rightarrow> errq3)
                                   in (Return (errq4, r1), restartSystemd sys (logf r) w4)))
                           else (Return (errq3, r1), w3)))))"

subsection \<open>Close\<close>

text \<open>
  \<^verbatim>\<open>Close\<close> hands \<^verbatim>\<open>restartSystemd\<close> the identifier \<^verbatim>\<open>logf\<close>, which is not the
  router's own \<^verbatim>\<open>r.logf\<close>; it is a parameter here. The router is returned as the call
  leaves it.
\<close>

definition Close ::
  "'fs sys \<Rightarrow> logger \<Rightarrow> linuxRouter \<Rightarrow> 'fs world \<Rightarrow> (error option \<times> linuxRouter) \<times> 'fs world" where
  "Close sys pkg_logf r w =
     (case restoreResolvConf sys (logf r) w of
        (err, w1) \<Rightarrow>
          (let ret0 = (None :: error option);
               (ret, w2) = (case err of
                              Some e \<Rightarrow>
                                (if ret0 = None then Some e else ret0,
                                 log_line (Logf (logf r) ''failed to restore system resolv.conf: %v''
                                             [Err e]) w1)
                            | None \<Rightarrow> (ret0, w1))
           in ((ret, r), restartSystemd sys pkg_logf w2)))"

subsection \<open>What a call did: derived notions\<close>

text \<open>
  The first error in execution order: the commands \<open>cs\<close> are started one after the
  other after the commands \<open>h\<close>, and the error of the first that fails is kept.
\<close>

fun first_error :: "'fs sys \<Rightarrow> string list list \<Rightarrow> string list list \<Rightarrow> error option" where
  "first_error sys h [] = None"
| "first_error sys h (c # cs) =
     (case snd (exec_result sys h c) of
        Some m \<Rightarrow> Some (ExecError m)
      | None \<Rightarrow> first_error sys (h @ [c]) cs)"

text \<open>\<^verbatim>\<open>if errq == nil { errq = err }\<close>, for an optional \<open>err\<close>.\<close>

definition errq_then :: "error option \<Rightarrow> error option \<Rightarrow> error option" where
  "errq_then errq e = (case errq of Some x \<Rightarrow> Some x | None \<Rightarrow> e)"

text \<open>The commands of a call, step by step: address, removals, additions.\<close>

definition addr_cmds :: "'fs sys \<Rightarrow> linuxRouter \<Rightarrow> RouteSettings \<Rightarrow> string list list" where
  "addr_cmds sys r rs =
     (if LocalAddr rs \<noteq> local r
      then (if local r \<noteq> CIDR_zero then [addr_del_argv sys r] else []) @ [addr_add_argv sys r rs]
      else [])"

definition to_remove :: "nat list \<Rightarrow> linuxRouter \<Rightarrow> RouteSettings \<Rightarrow> CIDR list" where
  "to_remove ord1 r rs =
     filter (\<lambda>k. \<not> map_has (newRoutes_of rs) k) (range_keys ord1 (routes r))"

definition to_add :: "nat list \<Rightarrow> linuxRouter \<Rightarrow> RouteSettings \<Rightarrow> CIDR list" where
  "to_add ord2 r rs =
     filter (\<lambda>k. \<not> map_has (routes r) k) (range_keys ord2 (newRoutes_of rs))"

definition planned_cmds ::
  "'fs sys \<Rightarrow> nat list \<Rightarrow> nat list \<Rightarrow> linuxRouter \<Rightarrow> RouteSettings \<Rightarrow> string list list" where
  "planned_cmds sys ord1 ord2 r rs =
     addr_cmds sys r rs
     @ map (route_del_argv sys r) (to_remove ord1 r rs)
     @ map (route_add_argv sys r rs) (to_add ord2 r rs)"








subsection \<open>Example inputs\<close>

text \<open>
  A system for running the model on examples. \<open>example_IP_String\<close> writes an IPv4
  address in dotted decimal and nil as \<^verbatim>\<open><nil>\<close>, as \<^verbatim>\<open>net.IP.String\<close> does; the
  examples hold IPv4 addresses only. The resolver helpers of the example do nothing.
\<close>

fun dots :: "string list \<Rightarrow> string" where
  "dots [] = []"
| "dots [s] = s"
| "dots (s # t # ss) = s @ ''.'' @ dots (t # ss)"

definition example_IP_String :: "byte list \<Rightarrow> string" where
  "example_IP_String bs =
     (if bs = [] then ''<nil>''
      else dots (map (\<lambda>b. Itoa (unat b))
                  (if length bs = 16 \<and> take 12 bs = v4InV6Prefix then drop 12 bs else bs)))"

definition ipv4 :: "byte \<Rightarrow> byte \<Rightarrow> byte \<Rightarrow> byte \<Rightarrow> byte \<Rightarrow> CIDR" where
  "ipv4 a b c d m = \<lparr>IP = \<lparr>Addr = v4InV6Prefix @ [a, b, c, d]\<rparr>, Mask = m\<rparr>"

definition example_sys ::
  "(string list list \<Rightarrow> string list \<Rightarrow> string \<times> string option) \<Rightarrow> unit sys" where
  "example_sys ex =
     \<lparr>net_IP_String = example_IP_String, exec_result = ex,
      replaceResolvConf = (\<lambda>dns domains lg w. (None, w)),
      restoreResolvConf = (\<lambda>lg w. (None, w))\<rparr>"

definition example_world :: "unit world" where
  "example_world = \<lparr>issued = [], logged = [], resolv = ()\<rparr>"

definition example_router :: linuxRouter where
  "example_router =
     \<lparr>logf = 0, tunname = ''tun0'', local = ipv4 100 64 0 1 32,
      routes = [ipv4 10 0 0 0 24, ipv4 10 0 1 0 24]\<rparr>"

definition example_settings :: RouteSettings where
  "example_settings =
     \<lparr>LocalAddr = ipv4 100 64 0 2 32, DNS = [], DNSDomains = [],
      Cfg = \<lparr>Peers = [\<lparr>AllowedIPs = [ipv4 10 0 1 0 24]\<rparr>,
                       \<lparr>AllowedIPs = [ipv4 10 0 2 0 24, ipv4 10 0 1 0 24]\<rparr>]\<rparr>\<rparr>"

text \<open>
  Two operating systems: one where every command fails, the n-th command started
  with exit status n, and one where every command succeeds.
\<close>

definition all_fail :: "string list list \<Rightarrow> string list \<Rightarrow> string \<times> string option" where
  "all_fail h c = (''RTNETLINK answers: Operation not permitted'',
                   Some (''exit status '' @ Itoa (Suc (length h))))"

definition all_ok :: "string list list \<Rightarrow> string list \<Rightarrow> string \<times> string option" where
  "all_ok h c = ('''', None)"



text \<open>An operating system where the first \<open>n\<close> commands succeed and all later ones fail.\<close>

definition fail_from :: "nat \<Rightarrow> string list list \<Rightarrow> string list \<Rightarrow> string \<times> string option" where
  "fail_from n h c = (if length h < n then all_ok h c else all_fail h c)"

text \<open>Resolver helpers that fail.\<close>

definition failing_resolver :: "unit sys \<Rightarrow> unit sys" where
  "failing_resolver sys =
     sys\<lparr>replaceResolvConf :=
           (\<lambda>dns domains lg w. (Some (FileError ''read-only file system''), w)),
         restoreResolvConf := (\<lambda>lg w. (Some (FileError ''read-only file system''), w))\<rparr>"



section \<open>Properties\<close>

subsection \<open>Every command of SetRoutes is started; the call returns\<close>

lemma errq_then_simps [simp]:
  "errq_then None e = e" "errq_then (Some x) e = Some x" "errq_then e None = e"
  by (simp_all add: errq_then_def split: option.splits)

lemma errq_then_assoc: "errq_then (errq_then a b) c = errq_then a (errq_then b c)"
  by (simp add: errq_then_def split: option.splits)

lemma first_error_append:
  "first_error sys h (cs @ ds) = errq_then (first_error sys h cs) (first_error sys (h @ cs) ds)"
  by (induction cs arbitrary: h) (auto split: option.splits)

lemma run_nonempty:
  "argv \<noteq> [] \<Longrightarrow>
   run sys argv w =
     (Return (fst (exec_result sys (issued w) argv),
              map_option ExecError (snd (exec_result sys (issued w) argv))),
      w\<lparr>issued := issued w @ [argv]\<rparr>)"
  by (simp add: run_def split: prod.splits)

lemma attempt_nonempty:
  assumes "argv \<noteq> []"
  shows "\<exists>w1. attempt sys lg format argv errq w =
            (Return (errq_then errq (first_error sys (issued w) [argv])), w1)
          \<and> issued w1 = issued w @ [argv] \<and> resolv w1 = resolv w"
  using assms
  by (auto simp: attempt_def run_nonempty log_line_def errq_then_def split: option.splits)

lemma del_routes_run:
  "\<exists>w1. del_routes sys r newRoutes ks errq w =
           (Return (errq_then errq (first_error sys (issued w)
                      (map (route_del_argv sys r) (filter (\<lambda>k. \<not> map_has newRoutes k) ks)))), w1)
        \<and> issued w1 = issued w @ map (route_del_argv sys r) (filter (\<lambda>k. \<not> map_has newRoutes k) ks)
        \<and> resolv w1 = resolv w"
proof (induction ks arbitrary: errq w)
  case Nil
  show ?case by simp
next
  case (Cons k ks)
  show ?case
  proof (cases "map_has newRoutes k")
    case True
    with Cons.IH [of errq w] show ?thesis by simp
  next
    case False
    have ne: "route_del_argv sys r k \<noteq> []" by (simp add: route_del_argv_def)
    from attempt_nonempty [OF ne, of sys "logf r" _ errq w]
    obtain w1 where a: "attempt sys (logf r) ''addr del failed: %v: %v\<newline>%s''
                          (route_del_argv sys r k) errq w =
            (Return (errq_then errq (first_error sys (issued w) [route_del_argv sys r k])), w1)"
      and i: "issued w1 = issued w @ [route_del_argv sys r k]" and f: "resolv w1 = resolv w"
      by blast
    from Cons.IH [of "errq_then errq (first_error sys (issued w) [route_del_argv sys r k])" w1]
    obtain w2 where b: "del_routes sys r newRoutes ks
          (errq_then errq (first_error sys (issued w) [route_del_argv sys r k])) w1 =
           (Return (errq_then (errq_then errq (first_error sys (issued w) [route_del_argv sys r k]))
              (first_error sys (issued w1)
                      (map (route_del_argv sys r) (filter (\<lambda>k. \<not> map_has newRoutes k) ks)))), w2)"
      and i2: "issued w2 = issued w1 @ map (route_del_argv sys r) (filter (\<lambda>k. \<not> map_has newRoutes k) ks)"
      and f2: "resolv w2 = resolv w1"
      by blast
    show ?thesis using False a b i i2 f f2
      by (cases errq; cases "snd (exec_result sys (issued w) (route_del_argv sys r k))") simp_all
  qed
qed

lemma add_routes_run:
  "\<exists>w1. add_routes sys r rs ks errq w =
           (Return (errq_then errq (first_error sys (issued w)
                      (map (route_add_argv sys r rs) (filter (\<lambda>k. \<not> map_has (routes r) k) ks)))), w1)
        \<and> issued w1 = issued w @ map (route_add_argv sys r rs) (filter (\<lambda>k. \<not> map_has (routes r) k) ks)
        \<and> resolv w1 = resolv w"
proof (induction ks arbitrary: errq w)
  case Nil
  show ?case by simp
next
  case (Cons k ks)
  show ?case
  proof (cases "map_has (routes r) k")
    case True
    with Cons.IH [of errq w] show ?thesis by simp
  next
    case False
    let ?c = "route_add_argv sys r rs k"
    let ?e = "errq_then errq (first_error sys (issued w) [?c])"
    let ?rest = "map (route_add_argv sys r rs) (filter (\<lambda>k. \<not> map_has (routes r) k) ks)"
    have ne: "?c \<noteq> []" by (simp add: route_add_argv_def)
    from attempt_nonempty [OF ne, of sys "logf r" _ errq w]
    obtain w1 where a: "attempt sys (logf r) ''addr add failed: %v: %v\<newline>%s'' ?c errq w =
                          (Return ?e, w1)"
      and i: "issued w1 = issued w @ [?c]" and f: "resolv w1 = resolv w"
      by blast
    from Cons.IH [of ?e w1]
    obtain w2 where b: "add_routes sys r rs ks ?e w1 =
                          (Return (errq_then ?e (first_error sys (issued w1) ?rest)), w2)"
      and i2: "issued w2 = issued w1 @ ?rest" and f2: "resolv w2 = resolv w1"
      by blast
    show ?thesis using False a b i i2 f f2
      by (cases errq; cases "snd (exec_result sys (issued w) ?c)") simp_all
  qed
qed

lemma set_addr_run:
  "\<exists>w1. set_addr sys r rs errq w =
           (Return (errq_then errq (first_error sys (issued w) (addr_cmds sys r rs))), w1)
        \<and> issued w1 = issued w @ addr_cmds sys r rs \<and> resolv w1 = resolv w"
proof (cases "LocalAddr rs \<noteq> local r")
  case False
  then show ?thesis by (simp add: set_addr_def addr_cmds_def)
next
  case diff: True
  let ?a = "addr_add_argv sys r rs"
  have nea: "?a \<noteq> []" by (simp add: addr_add_argv_def)
  show ?thesis
  proof (cases "local r \<noteq> CIDR_zero")
    case False
    from attempt_nonempty [OF nea, of sys "logf r" _ errq w] diff False
    show ?thesis by (simp add: set_addr_def addr_cmds_def)
  next
    case True
    let ?d = "addr_del_argv sys r"
    let ?e = "errq_then errq (first_error sys (issued w) [?d])"
    have ned: "?d \<noteq> []" by (simp add: addr_del_argv_def)
    from attempt_nonempty [OF ned, of sys "logf r" _ errq w]
    obtain w1 where a: "attempt sys (logf r) ''addr del failed: %v: %v\<newline>%s'' ?d errq w =
                          (Return ?e, w1)"
      and i: "issued w1 = issued w @ [?d]" and f: "resolv w1 = resolv w"
      by blast
    from attempt_nonempty [OF nea, of sys "logf r" _ ?e w1]
    obtain w2 where b: "attempt sys (logf r) ''addr add failed: %v: %v\<newline>%s'' ?a ?e w1 =
                          (Return (errq_then ?e (first_error sys (issued w1) [?a])), w2)"
      and i2: "issued w2 = issued w1 @ [?a]" and f2: "resolv w2 = resolv w1"
      by blast
    show ?thesis using diff True a b i i2 f f2
      by (cases errq; cases "snd (exec_result sys (issued w) ?d)")
         (simp_all add: set_addr_def addr_cmds_def)
  qed
qed

lemma SetRoutes_run:
  "\<exists>w1. SetRoutes sys ord1 ord2 r rs w =
           (Return (first_error sys (issued w) (planned_cmds sys ord1 ord2 r rs),
                    r\<lparr>local := LocalAddr rs, routes := newRoutes_of rs\<rparr>), w1)
        \<and> issued w1 = issued w @ planned_cmds sys ord1 ord2 r rs
        \<and> resolv w1 = resolv w"
proof -
  let ?A = "addr_cmds sys r rs"
  let ?D = "map (route_del_argv sys r) (to_remove ord1 r rs)"
  let ?N = "map (route_add_argv sys r rs) (to_add ord2 r rs)"
  let ?e1 = "first_error sys (issued w) ?A"
  from set_addr_run [of sys r rs None w]
  obtain w1 where s1: "set_addr sys r rs None w = (Return ?e1, w1)"
    and i1: "issued w1 = issued w @ ?A" and f1: "resolv w1 = resolv w"
    by auto
  let ?e2 = "errq_then ?e1 (first_error sys (issued w1) ?D)"
  from del_routes_run [of sys r "newRoutes_of rs" "range_keys ord1 (routes r)" ?e1 w1]
  obtain w2 where s2: "del_routes sys r (newRoutes_of rs) (range_keys ord1 (routes r)) ?e1 w1 =
                         (Return ?e2, w2)"
    and i2: "issued w2 = issued w1 @ ?D" and f2: "resolv w2 = resolv w1"
    unfolding to_remove_def by blast
  let ?e3 = "errq_then ?e2 (first_error sys (issued w2) ?N)"
  from add_routes_run [of sys r rs "range_keys ord2 (newRoutes_of rs)" ?e2 w2]
  obtain w3 where s3: "add_routes sys r rs (range_keys ord2 (newRoutes_of rs)) ?e2 w2 =
                         (Return ?e3, w3)"
    and i3: "issued w3 = issued w2 @ ?N" and f3: "resolv w3 = resolv w2"
    unfolding to_add_def by blast
  have e: "?e3 = first_error sys (issued w) (planned_cmds sys ord1 ord2 r rs)"
    by (simp add: planned_cmds_def first_error_append i1 i2 errq_then_assoc)
  have "SetRoutes sys ord1 ord2 r rs w =
          (Return (?e3, r\<lparr>local := LocalAddr rs, routes := newRoutes_of rs\<rparr>), w3)"
    by (simp add: SetRoutes_def s1 s2 s3)
  with e i1 i2 i3 f1 f2 f3 show ?thesis
    by (simp add: planned_cmds_def)
qed

lemma range_keys_mset: "mset (range_keys ns xs) = mset xs"
proof (induction ns xs rule: range_keys.induct)
  case (3 n ns x xs)
  let ?ys = "x # xs"
  let ?i = "n mod length ?ys"
  have lt: "?i < length ?ys" by simp
  have "mset ?ys = mset (take ?i ?ys @ ?ys ! ?i # drop (Suc ?i) ?ys)"
    using id_take_nth_drop [OF lt] by simp
  then show ?case using 3 by (simp add: Let_def)
qed simp_all

lemma range_keys_set [simp]: "set (range_keys ns xs) = set xs"
  using range_keys_mset [of ns xs] by (metis set_mset_mset)

lemma range_keys_distinct [simp]: "distinct (range_keys ns xs) = distinct xs"
  using range_keys_mset [of ns xs] by (metis mset_eq_imp_distinct_iff)

lemma mset_without_nth:
  assumes "i < length xs"
  shows "mset (take i xs @ drop (Suc i) xs) = mset xs - {#xs ! i#}"
proof -
  have "mset xs = mset (take i xs @ xs ! i # drop (Suc i) xs)"
    using id_take_nth_drop [OF assms] by simp
  then show ?thesis by simp
qed

lemma range_keys_any_order:
  "mset ys = mset xs \<Longrightarrow> \<exists>ns. range_keys ns xs = ys"
proof (induction ys arbitrary: xs)
  case Nil
  then show ?case by simp
next
  case (Cons y ys)
  from Cons.prems have "y \<in> set xs"
    by (metis list.set_intros(1) set_mset_mset)
  then obtain i where i: "i < length xs" and y: "xs ! i = y"
    by (auto simp: in_set_conv_nth)
  let ?rest = "take i xs @ drop (Suc i) xs"
  have "mset ?rest = mset xs - {#y#}"
    using mset_without_nth [OF i] y by simp
  also have "\<dots> = mset (y # ys) - {#y#}"
    using Cons.prems by simp
  finally have "mset ys = mset ?rest" by simp
  from Cons.IH [OF this] obtain ns where ns: "range_keys ns ?rest = ys" by blast
  from i obtain x t where xs: "xs = x # t" by (cases xs) auto
  have "range_keys (i # ns) xs = y # ys"
    using i y ns unfolding xs by (simp add: Let_def)
  then show ?case by blast
qed

lemma store_fold_set:
  "set (fold (\<lambda>route m1. map_store m1 route) xs m) = set m \<union> set xs"
  by (induction xs arbitrary: m) (auto simp: map_store_def)

lemma store_fold_distinct:
  "distinct m \<Longrightarrow> distinct (fold (\<lambda>route m1. map_store m1 route) xs m)"
  by (induction xs arbitrary: m) (auto simp: map_store_def)

lemma peers_fold_set:
  "set (fold (\<lambda>peer m. fold (\<lambda>route m1. map_store m1 route) (AllowedIPs peer) m) ps m0) =
     set m0 \<union> (\<Union>p \<in> set ps. set (AllowedIPs p))"
  by (induction ps arbitrary: m0) (auto simp: store_fold_set)

lemma peers_fold_distinct:
  "distinct m0 \<Longrightarrow>
   distinct (fold (\<lambda>peer m. fold (\<lambda>route m1. map_store m1 route) (AllowedIPs peer) m) ps m0)"
  by (induction ps arbitrary: m0) (auto simp: store_fold_distinct)

lemma newRoutes_of_set: "set (newRoutes_of rs) = (\<Union>p \<in> set (Peers (Cfg rs)). set (AllowedIPs p))"
  by (simp add: newRoutes_of_def peers_fold_set)

lemma newRoutes_of_distinct: "distinct (newRoutes_of rs)"
  by (simp add: newRoutes_of_def peers_fold_distinct)

subsection \<open>The applied state after SetRoutes\<close>

text \<open>
  C3. Every call to SetRoutes returns, whatever the outcome of the commands it starts,
  and on return the router holds the target address as its local address and, as its
  route set, the union of the allowed IPs of all peers (each route once). The name of the
  tunnel and the logger are as before.
\<close>

theorem SetRoutes_applied_state:
  "\<exists>e r1 w1. SetRoutes sys ord1 ord2 r rs w = (Return (e, r1), w1)
     \<and> local r1 = LocalAddr rs
     \<and> set (routes r1) = (\<Union>p \<in> set (Peers (Cfg rs)). set (AllowedIPs p))
     \<and> distinct (routes r1)
     \<and> tunname r1 = tunname r \<and> logf r1 = logf r"
proof -
  from SetRoutes_run [of sys ord1 ord2 r rs w]
  obtain w1 where "SetRoutes sys ord1 ord2 r rs w =
      (Return (first_error sys (issued w) (planned_cmds sys ord1 ord2 r rs),
               r\<lparr>local := LocalAddr rs, routes := newRoutes_of rs\<rparr>), w1)"
    by blast
  then show ?thesis
    by (simp add: newRoutes_of_set newRoutes_of_distinct)
qed

text \<open>
  The example with every command failing: the call returns the first error and the
  router holds the target all the same.
\<close>

theorem SetRoutes_applied_state_witness:
  "fst (SetRoutes (example_sys all_fail) [1] [5, 1] example_router example_settings example_world)
     = Return (Some (ExecError ''exit status 1''),
               example_router\<lparr>local := ipv4 100 64 0 2 32,
                                routes := [ipv4 10 0 1 0 24, ipv4 10 0 2 0 24]\<rparr>)
   \<and> (\<exists>e r1 w1.
         SetRoutes (example_sys all_fail) [1] [5, 1] example_router example_settings example_world
           = (Return (e, r1), w1)
         \<and> local r1 = LocalAddr example_settings
         \<and> set (routes r1) = (\<Union>p \<in> set (Peers (Cfg example_settings)). set (AllowedIPs p))
         \<and> distinct (routes r1)
         \<and> tunname r1 = tunname example_router \<and> logf r1 = logf example_router)"
proof -
  have run: "fst (SetRoutes (example_sys all_fail) [1] [5, 1] example_router example_settings
                    example_world)
     = Return (Some (ExecError ''exit status 1''),
               example_router\<lparr>local := ipv4 100 64 0 2 32,
                                routes := [ipv4 10 0 1 0 24, ipv4 10 0 2 0 24]\<rparr>)"
    by code_simp
  show ?thesis
    using run
      SetRoutes_applied_state [of "example_sys all_fail" "[1]" "[5, 1]" example_router
        example_settings example_world]
    by blast
qed

lemma planned_cmds_settled:
  "planned_cmds sys2 ord3 ord4 (r\<lparr>local := LocalAddr rs, routes := newRoutes_of rs\<rparr>) rs = []"
  by (simp add: planned_cmds_def addr_cmds_def to_remove_def to_add_def map_has_def)

text \<open>
  C2. After a call to SetRoutes with some settings, a second call with the same settings
  starts no command at all (no address command, no route command) and returns no error,
  whatever failed in the first call, whatever order the maps are ranged over and however
  the operating system behaves by then. The router is left as the first call left it.
\<close>

theorem SetRoutes_idempotent:
  "\<exists>e r1 w1 w2.
      SetRoutes sys ord1 ord2 r rs w = (Return (e, r1), w1)
    \<and> SetRoutes sys2 ord3 ord4 r1 rs w1 = (Return (None, r1), w2)
    \<and> issued w2 = issued w1"
proof -
  let ?r1 = "r\<lparr>local := LocalAddr rs, routes := newRoutes_of rs\<rparr>"
  from SetRoutes_run [of sys ord1 ord2 r rs w]
  obtain w1 where first: "SetRoutes sys ord1 ord2 r rs w =
      (Return (first_error sys (issued w) (planned_cmds sys ord1 ord2 r rs), ?r1), w1)"
    by blast
  from SetRoutes_run [of sys2 ord3 ord4 ?r1 rs w1]
  obtain w2 where second: "SetRoutes sys2 ord3 ord4 ?r1 rs w1 =
      (Return (first_error sys2 (issued w1) (planned_cmds sys2 ord3 ord4 ?r1 rs),
               ?r1\<lparr>local := LocalAddr rs, routes := newRoutes_of rs\<rparr>), w2)"
    and i2: "issued w2 = issued w1 @ planned_cmds sys2 ord3 ord4 ?r1 rs"
    by blast
  have "SetRoutes sys2 ord3 ord4 ?r1 rs w1 = (Return (None, ?r1), w2)"
    using second by (simp add: planned_cmds_settled)
  moreover have "issued w2 = issued w1"
    using i2 by (simp add: planned_cmds_settled)
  ultimately show ?thesis using first by blast
qed

theorem SetRoutes_idempotent_witness:
  "(case SetRoutes (example_sys all_fail) [1] [5, 1] example_router example_settings example_world of
      (Return (e, r1), w1) \<Rightarrow>
        fst (SetRoutes (example_sys all_ok) [0] [3] r1 example_settings w1) = Return (None, r1)
        \<and> issued (snd (SetRoutes (example_sys all_ok) [0] [3] r1 example_settings w1)) = issued w1
    | (Exit, w1) \<Rightarrow> False)
   \<and> (\<exists>e r1 w1 w2.
         SetRoutes (example_sys all_fail) [1] [5, 1] example_router example_settings example_world
           = (Return (e, r1), w1)
       \<and> SetRoutes (example_sys all_ok) [0] [3] r1 example_settings w1 = (Return (None, r1), w2)
       \<and> issued w2 = issued w1)"
proof -
  have run: "(case SetRoutes (example_sys all_fail) [1] [5, 1] example_router example_settings
                     example_world of
      (Return (e, r1), w1) \<Rightarrow>
        fst (SetRoutes (example_sys all_ok) [0] [3] r1 example_settings w1) = Return (None, r1)
        \<and> issued (snd (SetRoutes (example_sys all_ok) [0] [3] r1 example_settings w1)) = issued w1
    | (Exit, w1) \<Rightarrow> False)"
    by code_simp
  show ?thesis
    using run
      SetRoutes_idempotent [of "example_sys all_fail" "[1]" "[5, 1]" example_router
        example_settings example_world "example_sys all_ok" "[0]" "[3]"]
    by blast
qed

subsection \<open>The address commands\<close>






subsection \<open>Failures do not stop the call\<close>

lemma planned_cmds_exec_result:
  "planned_cmds (sys\<lparr>exec_result := ex\<rparr>) ord1 ord2 r rs = planned_cmds sys ord1 ord2 r rs"
  by (simp add: planned_cmds_def addr_cmds_def addr_del_argv_def addr_add_argv_def
      route_del_argv_def route_add_argv_def nstr_def CIDR_String_def IP_String_def)

text \<open>
  C4. The commands a call to SetRoutes starts do not depend on which of them fail: there
  is one list of commands that the call starts under every behaviour of the operating
  system, so no failure cuts the call short. The call returns the first error in the
  order of execution (\<open>first_error\<close>), or nil when no command fails.
\<close>

theorem SetRoutes_first_error:
  "\<exists>cs. \<forall>ex. \<exists>r1 w1.
      SetRoutes (sys\<lparr>exec_result := ex\<rparr>) ord1 ord2 r rs w =
        (Return (first_error (sys\<lparr>exec_result := ex\<rparr>) (issued w) cs, r1), w1)
    \<and> issued w1 = issued w @ cs"
proof (rule exI, rule allI)
  fix ex
  from SetRoutes_run [of "sys\<lparr>exec_result := ex\<rparr>" ord1 ord2 r rs w]
  show "\<exists>r1 w1.
      SetRoutes (sys\<lparr>exec_result := ex\<rparr>) ord1 ord2 r rs w =
        (Return (first_error (sys\<lparr>exec_result := ex\<rparr>) (issued w)
                   (planned_cmds sys ord1 ord2 r rs), r1), w1)
    \<and> issued w1 = issued w @ planned_cmds sys ord1 ord2 r rs"
    unfolding planned_cmds_exec_result by blast
qed

text \<open>
  The example with the first command succeeding and the three later ones failing: all
  four commands are started and the error of the second comes back.
\<close>

theorem SetRoutes_first_error_witness:
  "fst (SetRoutes ((example_sys all_ok)\<lparr>exec_result := fail_from 1\<rparr>) [1] [5, 1] example_router
          example_settings example_world)
     = Return (Some (ExecError ''exit status 2''),
               example_router\<lparr>local := ipv4 100 64 0 2 32,
                                routes := [ipv4 10 0 1 0 24, ipv4 10 0 2 0 24]\<rparr>)
   \<and> length (issued (snd (SetRoutes ((example_sys all_ok)\<lparr>exec_result := fail_from 1\<rparr>) [1] [5, 1]
                             example_router example_settings example_world))) = 4
   \<and> (\<exists>cs. \<forall>ex. \<exists>r1 w1.
         SetRoutes ((example_sys all_ok)\<lparr>exec_result := ex\<rparr>) [1] [5, 1] example_router
           example_settings example_world
           = (Return (first_error ((example_sys all_ok)\<lparr>exec_result := ex\<rparr>)
                        (issued example_world) cs, r1), w1)
       \<and> issued w1 = issued example_world @ cs)"
proof -
  have run: "fst (SetRoutes ((example_sys all_ok)\<lparr>exec_result := fail_from 1\<rparr>) [1] [5, 1]
                    example_router example_settings example_world)
     = Return (Some (ExecError ''exit status 2''),
               example_router\<lparr>local := ipv4 100 64 0 2 32,
                                routes := [ipv4 10 0 1 0 24, ipv4 10 0 2 0 24]\<rparr>)"
    by code_simp
  have started: "length (issued (snd (SetRoutes ((example_sys all_ok)\<lparr>exec_result := fail_from 1\<rparr>)
                   [1] [5, 1] example_router example_settings example_world))) = 4"
    by code_simp
  show ?thesis
    using run started
      SetRoutes_first_error [of "example_sys all_ok" "[1]" "[5, 1]" example_router
        example_settings example_world]
    by blast
qed

subsection \<open>The resolver branch of SetRoutes\<close>

lemma run_ignores_replaceResolvConf:
  "run (sys\<lparr>replaceResolvConf := f\<rparr>) argv w = run sys argv w"
  by (simp add: run_def)

lemma attempt_ignores_replaceResolvConf:
  "attempt (sys\<lparr>replaceResolvConf := f\<rparr>) lg format argv errq w = attempt sys lg format argv errq w"
  by (simp add: attempt_def run_ignores_replaceResolvConf)

lemma argv_ignore_replaceResolvConf:
  "addr_del_argv (sys\<lparr>replaceResolvConf := f\<rparr>) r = addr_del_argv sys r"
  "addr_add_argv (sys\<lparr>replaceResolvConf := f\<rparr>) r rs = addr_add_argv sys r rs"
  "route_del_argv (sys\<lparr>replaceResolvConf := f\<rparr>) r route = route_del_argv sys r route"
  "route_add_argv (sys\<lparr>replaceResolvConf := f\<rparr>) r rs route = route_add_argv sys r rs route"
  by (simp_all add: addr_del_argv_def addr_add_argv_def route_del_argv_def route_add_argv_def
      nstr_def CIDR_String_def IP_String_def)

lemma set_addr_ignores_replaceResolvConf:
  "set_addr (sys\<lparr>replaceResolvConf := f\<rparr>) r rs errq w = set_addr sys r rs errq w"
  by (simp add: set_addr_def attempt_ignores_replaceResolvConf argv_ignore_replaceResolvConf
      split: prod.splits outcome.splits)

lemma del_routes_ignores_replaceResolvConf:
  "del_routes (sys\<lparr>replaceResolvConf := f\<rparr>) r newRoutes ks errq w =
   del_routes sys r newRoutes ks errq w"
  by (induction ks arbitrary: errq w)
     (simp_all add: attempt_ignores_replaceResolvConf argv_ignore_replaceResolvConf
        split: prod.splits outcome.splits)

lemma add_routes_ignores_replaceResolvConf:
  "add_routes (sys\<lparr>replaceResolvConf := f\<rparr>) r rs ks errq w = add_routes sys r rs ks errq w"
  by (induction ks arbitrary: errq w)
     (simp_all add: attempt_ignores_replaceResolvConf argv_ignore_replaceResolvConf
        split: prod.splits outcome.splits)

lemma first_error_is_exec:
  "first_error sys h cs \<noteq> Some (Errorf format err)"
  by (induction cs arbitrary: h) (simp_all split: option.splits)

lemma planned_cmds_ip: "c \<in> set (planned_cmds sys ord1 ord2 r rs) \<Longrightarrow> take 1 c = [''ip'']"
  by (auto simp: planned_cmds_def addr_cmds_def addr_del_argv_def addr_add_argv_def
      route_del_argv_def route_add_argv_def split: if_splits)

text \<open>
  C10. The branch of SetRoutes that replaces the resolver configuration is under
  \<^verbatim>\<open>if false\<close>: the call is the same whatever \<^verbatim>\<open>replaceResolvConf\<close> would do, it leaves
  the resolver configuration as it was, does not restart the resolver service, and the
  error it returns is never one built by \<^verbatim>\<open>fmt.Errorf\<close>.
\<close>

theorem SetRoutes_dns_branch_dead:
  "SetRoutes (sys\<lparr>replaceResolvConf := f\<rparr>) ord1 ord2 r rs w = SetRoutes sys ord1 ord2 r rs w
   \<and> (\<exists>e r1 w1 cs.
         SetRoutes sys ord1 ord2 r rs w = (Return (e, r1), w1)
       \<and> resolv w1 = resolv w
       \<and> issued w1 = issued w @ cs \<and> restart_argv \<notin> set cs
       \<and> (\<forall>format err. e \<noteq> Some (Errorf format err)))"
proof
  show "SetRoutes (sys\<lparr>replaceResolvConf := f\<rparr>) ord1 ord2 r rs w = SetRoutes sys ord1 ord2 r rs w"
    by (simp add: SetRoutes_def set_addr_ignores_replaceResolvConf Let_def
        del_routes_ignores_replaceResolvConf add_routes_ignores_replaceResolvConf
        split: prod.splits outcome.splits)
next
  let ?cs = "planned_cmds sys ord1 ord2 r rs"
  from SetRoutes_run [of sys ord1 ord2 r rs w]
  obtain w1 where run: "SetRoutes sys ord1 ord2 r rs w =
      (Return (first_error sys (issued w) ?cs,
               r\<lparr>local := LocalAddr rs, routes := newRoutes_of rs\<rparr>), w1)"
    and i: "issued w1 = issued w @ ?cs" and f: "resolv w1 = resolv w"
    by blast
  have "restart_argv \<notin> set ?cs"
    using planned_cmds_ip [of restart_argv sys ord1 ord2 r rs] by (auto simp: restart_argv_def)
  with run i f first_error_is_exec [of sys "issued w" ?cs]
  show "\<exists>e r1 w1 cs.
         SetRoutes sys ord1 ord2 r rs w = (Return (e, r1), w1)
       \<and> resolv w1 = resolv w
       \<and> issued w1 = issued w @ cs \<and> restart_argv \<notin> set cs
       \<and> (\<forall>format err. e \<noteq> Some (Errorf format err))"
    by blast
qed

theorem SetRoutes_dns_branch_dead_witness:
  "fst (SetRoutes (failing_resolver (example_sys all_ok)) [] [] example_router example_settings
          example_world)
     = Return (None, example_router\<lparr>local := ipv4 100 64 0 2 32,
                                     routes := [ipv4 10 0 1 0 24, ipv4 10 0 2 0 24]\<rparr>)
   \<and> SetRoutes ((example_sys all_ok)
                  \<lparr>replaceResolvConf := replaceResolvConf (failing_resolver (example_sys all_ok))\<rparr>)
        [] [] example_router example_settings example_world
     = SetRoutes (example_sys all_ok) [] [] example_router example_settings example_world"
proof -
  have run: "fst (SetRoutes (failing_resolver (example_sys all_ok)) [] [] example_router
                    example_settings example_world)
     = Return (None, example_router\<lparr>local := ipv4 100 64 0 2 32,
                                     routes := [ipv4 10 0 1 0 24, ipv4 10 0 2 0 24]\<rparr>)"
    by code_simp
  show ?thesis
    using run
      SetRoutes_dns_branch_dead [where sys = "example_sys all_ok"
        and f = "replaceResolvConf (failing_resolver (example_sys all_ok))"
        and ?ord1.0 = "[]" and ?ord2.0 = "[]" and r = example_router
        and rs = example_settings and w = example_world]
    by blast
qed

subsection \<open>Close\<close>

text \<open>
  C9. Close returns the error of \<^verbatim>\<open>restoreResolvConf\<close>, if any, and leaves the router
  (local address, route set, everything) as it was. After \<^verbatim>\<open>restoreResolvConf\<close> it
  starts one command, the restart of the resolver service, and nothing else: no route,
  address or iptables command. So when \<^verbatim>\<open>restoreResolvConf\<close> starts no command, the
  restart is the one command of the whole call. The resolver configuration is what
  \<^verbatim>\<open>restoreResolvConf\<close> made of it.
\<close>

theorem Close_frame:
  "\<exists>w1. Close sys pkg_logf r w = ((fst (restoreResolvConf sys (logf r) w), r), w1)
     \<and> issued w1 = issued (snd (restoreResolvConf sys (logf r) w)) @ [restart_argv]
     \<and> resolv w1 = resolv (snd (restoreResolvConf sys (logf r) w))
     \<and> (issued (snd (restoreResolvConf sys (logf r) w)) = issued w
          \<longrightarrow> issued w1 = issued w @ [restart_argv])"
  by (auto simp: Close_def restartSystemd_def log_line_def Let_def split: prod.splits option.splits)

theorem Close_frame_witness:
  "fst (Close (failing_resolver (example_sys all_fail)) 1 example_router example_world)
     = (Some (FileError ''read-only file system''), example_router)
   \<and> issued (snd (Close (failing_resolver (example_sys all_fail)) 1 example_router example_world))
     = [[''service'', ''systemd-resolved'', ''restart'']]
   \<and> issued (snd (restoreResolvConf (failing_resolver (example_sys all_fail))
                     (logf example_router) example_world)) = issued example_world
   \<and> (\<exists>w1. Close (failing_resolver (example_sys all_fail)) 1 example_router example_world
              = ((fst (restoreResolvConf (failing_resolver (example_sys all_fail))
                         (logf example_router) example_world), example_router), w1)
          \<and> issued w1 = issued example_world @ [restart_argv])"
proof -
  have ret: "fst (Close (failing_resolver (example_sys all_fail)) 1 example_router example_world)
     = (Some (FileError ''read-only file system''), example_router)"
    by code_simp
  have cmds: "issued (snd (Close (failing_resolver (example_sys all_fail)) 1 example_router
                             example_world))
     = [[''service'', ''systemd-resolved'', ''restart'']]"
    by code_simp
  have quiet: "issued (snd (restoreResolvConf (failing_resolver (example_sys all_fail))
                     (logf example_router) example_world)) = issued example_world"
    by code_simp
  show ?thesis
    using ret cmds quiet
      Close_frame [of "failing_resolver (example_sys all_fail)" 1 example_router example_world]
    by auto
qed

subsection \<open>Up\<close>

text \<open>
  C8. When the command that brings the interface up succeeds, Up returns nil. It starts
  the two iptables commands after it; when one of them fails, the failure goes to the
  router's log and nowhere else: the return value is nil all the same.
\<close>

theorem Up_returns_nil:
  assumes "snd (exec_result sys (issued w) (link_up_argv r)) = None"
  shows "\<exists>w1. Up sys r w = (Return None, w1)
     \<and> issued w1 = issued w @ [link_up_argv r, forward_argv r, nat_argv]
     \<and> logged w1 = logged w
         @ (case exec_result sys (issued w @ [link_up_argv r]) (forward_argv r) of
              (out2, Some m2) \<Rightarrow>
                [Logf (logf r) ''iptables forward failed: %v\<newline>%s''
                   [Err (ExecError m2), Bytes out2]]
            | (out2, None) \<Rightarrow> [])
         @ (case exec_result sys (issued w @ [link_up_argv r, forward_argv r]) nat_argv of
              (out3, Some m3) \<Rightarrow>
                [Logf (logf r) ''iptables nat failed: %v\<newline>%s''
                   [Err (ExecError m3), Bytes out3]]
            | (out3, None) \<Rightarrow> [])"
proof -
  have ne: "link_up_argv r \<noteq> []" "forward_argv r \<noteq> []" "nat_argv \<noteq> []"
    by (simp_all add: link_up_argv_def forward_argv_def nat_argv_def)
  show ?thesis
    using assms
    by (auto simp: Up_def run_nonempty [OF ne(1)] run_nonempty [OF ne(2)] run_nonempty [OF ne(3)]
          log_line_def Let_def split: prod.splits option.splits)
qed

text \<open>The example where the interface comes up and both iptables commands fail.\<close>

theorem Up_returns_nil_witness:
  "snd (exec_result (example_sys (fail_from 1)) (issued example_world)
          (link_up_argv example_router)) = None
   \<and> fst (Up (example_sys (fail_from 1)) example_router example_world) = Return None
   \<and> length (logged (snd (Up (example_sys (fail_from 1)) example_router example_world))) = 2
   \<and> (\<exists>w1. Up (example_sys (fail_from 1)) example_router example_world = (Return None, w1)
          \<and> issued w1 = issued example_world
               @ [link_up_argv example_router, forward_argv example_router, nat_argv])"
proof -
  have up: "snd (exec_result (example_sys (fail_from 1)) (issued example_world)
                   (link_up_argv example_router)) = None"
    by code_simp
  have ret: "fst (Up (example_sys (fail_from 1)) example_router example_world) = Return None"
    by code_simp
  have logs: "length (logged (snd (Up (example_sys (fail_from 1)) example_router example_world))) = 2"
    by code_simp
  show ?thesis
    using up ret logs Up_returns_nil [OF up]
    by blast
qed

subsection \<open>The route commands are the difference of the two route sets\<close>









subsection \<open>The address is set before routes are added\<close>






subsection \<open>Destinations and gateways of the route commands\<close>

lemma CIDRMask_loop_length [simp]: "length (CIDRMask_loop l n) = l"
  by (induction l arbitrary: n) simp_all











text \<open>
  Outside the valid masks \<^verbatim>\<open>net.CIDRMask\<close> is nil and so is the masked address: the
  destination is then written from the nil address.
\<close>

lemma nip_mask_out_of_range: "nip (ipv4 10 0 1 77 33) = []"
  by code_simp



end
